theory Spec2Isabelle
  imports Complex_Main
begin

section \<open>Python values and built-ins used by the code\<close>

text \<open>
  Instants (\<open>datetime\<close>, \<open>time.time()\<close>) and the durations computed from them are real
  numbers of seconds: a finite Python float is read as the real number it denotes, and
  rounding is not modelled.  Where a float can come from outside (a language-model
  prediction), its non-finite values are kept.
\<close>

datatype pyfloat = Fin real | PosInf | NegInf | NaN

text \<open>
  Python values that reach the code untyped: decoded JSON bodies, metadata dictionaries,
  the fields of a prediction.  A dictionary is an association list.
\<close>

datatype pyval =
    PNone
  | PBool bool
  | PInt int
  | PFloat pyfloat
  | PStr string
  | PList "pyval list"
  | PDict "(string \<times> pyval) list"

type_synonym pydict = "(string \<times> pyval) list"

datatype py_error =
    ValueError string
  | TypeError
  | AttributeError
  | OverflowError
  | HTTPException nat string
  | OtherError string

text \<open>\<open>d.get(k, default)\<close> on a dictionary.\<close>

fun dict_get :: "pydict \<Rightarrow> string \<Rightarrow> pyval \<Rightarrow> pyval" where
  "dict_get [] k dflt = dflt"
| "dict_get ((k', v) # kvs) k dflt = (if k' = k then v else dict_get kvs k dflt)"

text \<open>
  \<open>obj.get(k, default)\<close> on an arbitrary value: only a dictionary has the method, every
  other JSON value raises \<open>AttributeError\<close>.
\<close>

fun py_get :: "pyval \<Rightarrow> string \<Rightarrow> pyval \<Rightarrow> py_error + pyval" where
  "py_get (PDict d) k dflt = Inr (dict_get d k dflt)"
| "py_get v k dflt = Inl AttributeError"

text \<open>Truth value testing.\<close>

fun truthy :: "pyval \<Rightarrow> bool" where
  "truthy PNone = False"
| "truthy (PBool b) = b"
| "truthy (PInt i) = (i \<noteq> 0)"
| "truthy (PFloat x) = (x \<noteq> Fin 0)"
| "truthy (PStr s) = (s \<noteq> [])"
| "truthy (PList xs) = (xs \<noteq> [])"
| "truthy (PDict kvs) = (kvs \<noteq> [])"

text \<open>\<open>a or b\<close>.\<close>

definition py_or :: "pyval \<Rightarrow> pyval \<Rightarrow> pyval" where
  "py_or a b = (if truthy a then a else b)"

text \<open>
  Strings are lists of 8-bit characters, the code points up to 0xFF: exactly the strings
  an HTTP header can hold (the framework decodes headers as Latin-1).  In that range
  \<open>str.strip\<close> and \<open>str.isspace\<close> take the ASCII white space, the separators 0x1C to 0x1F,
  0x85 and 0xA0 for white space, and the only decimal digits are the ASCII ones.
\<close>

definition is_space :: "char \<Rightarrow> bool" where
  "is_space c \<longleftrightarrow>
     c \<in> set [CHR 0x09, CHR 0x0A, CHR 0x0B, CHR 0x0C, CHR 0x0D, CHR 0x1C, CHR 0x1D, CHR 0x1E,
              CHR 0x1F, CHR 0x20, CHR 0x85, CHR 0xA0]"

definition py_strip :: "string \<Rightarrow> string" where
  "py_strip s = rev (dropWhile is_space (rev (dropWhile is_space s)))"

text \<open>
  \<open>int\<close> skips less: the white space of C (0x09 to 0x0D and the blank), and the two
  non-ASCII spaces, which it first turns into blanks.  The separators 0x1C to 0x1F are
  not skipped.
\<close>

definition is_int_space :: "char \<Rightarrow> bool" where
  "is_int_space c \<longleftrightarrow>
     c \<in> set [CHR 0x09, CHR 0x0A, CHR 0x0B, CHR 0x0C, CHR 0x0D, CHR 0x20, CHR 0x85, CHR 0xA0]"

definition int_strip :: "string \<Rightarrow> string" where
  "int_strip s = rev (dropWhile is_int_space (rev (dropWhile is_int_space s)))"

definition digit_value :: "char \<rightharpoonup> int" where
  "digit_value =
     map_of [(CHR ''0'', 0), (CHR ''1'', 1), (CHR ''2'', 2), (CHR ''3'', 3), (CHR ''4'', 4),
             (CHR ''5'', 5), (CHR ''6'', 6), (CHR ''7'', 7), (CHR ''8'', 8), (CHR ''9'', 9)]"

text \<open>
  The scan of a decimal literal from the left, over digits and underscores: the value
  so far, the number of digits so far, and whether the character just read was a digit.
  An underscore must follow a digit and be followed by one, and the literal must not be
  empty; otherwise the scan fails.  It stops at the first other character and returns the
  value, the digit count and what is left.
\<close>

fun py_scan :: "int \<Rightarrow> nat \<Rightarrow> bool \<Rightarrow> string \<Rightarrow> (int \<times> nat \<times> string) option" where
  "py_scan acc cnt prev_digit [] = (if prev_digit then Some (acc, cnt, []) else None)"
| "py_scan acc cnt prev_digit (c # cs) =
     (case digit_value c of
        Some d \<Rightarrow> py_scan (10 * acc + d) (Suc cnt) True cs
      | None \<Rightarrow>
          if c = CHR ''_'' then (if prev_digit then py_scan acc cnt False cs else None)
          else if prev_digit then Some (acc, cnt, c # cs)
          else None)"

text \<open>
  \<open>int(s)\<close> for a string: surrounding white space is dropped, one sign is allowed, and
  the rest must be one decimal literal.  A literal of more than 4300 digits is refused
  (the interpreter's default limit), before anything after the literal is looked at.
  Every failure is a \<open>ValueError\<close>; of its message, which quotes the string, the model
  keeps the fixed part.
\<close>

definition py_int :: "string \<Rightarrow> py_error + int" where
  "py_int s =
     (let t = int_strip s;
          (negative, body) =
            (case t of
               c # r \<Rightarrow> if c = CHR ''-'' then (True, r) else if c = CHR ''+'' then (False, r) else (False, t)
             | [] \<Rightarrow> (False, t))
      in case py_scan 0 0 False body of
           None \<Rightarrow> Inl (ValueError ''invalid literal for int() with base 10'')
         | Some (n, cnt, rest) \<Rightarrow>
             if cnt > 4300
             then Inl (ValueError ''Exceeds the limit (4300 digits) for integer string conversion'')
             else if rest \<noteq> []
             then Inl (ValueError ''invalid literal for int() with base 10'')
             else Inr (if negative then - n else n))"

text \<open>
  An \<open>int\<close> operand of float arithmetic is converted to a float first; an integer that
  rounds beyond the largest double raises \<open>OverflowError\<close>.
\<close>

definition int_to_float :: "int \<Rightarrow> py_error + real" where
  "int_to_float i =
     (if \<bar>i\<bar> \<ge> 2 ^ 1024 - 2 ^ 970 then Inl OverflowError else Inr (real_of_int i))"

text \<open>\<open>str.encode()\<close>: UTF-8, one byte below 0x80 and two bytes from there to 0xFF.\<close>

definition utf8_char :: "char \<Rightarrow> string" where
  "utf8_char c =
     (let n = (of_char c :: nat)
      in if n < 128 then [c] else [char_of (192 + n div 64), char_of (128 + n mod 64)])"

definition encode :: "string \<Rightarrow> string" where
  "encode s = concat (map utf8_char s)"

text \<open>
  \<open>hmac.compare_digest\<close> on two strings: both must be ASCII, otherwise \<open>TypeError\<close>; the
  result is their equality.
\<close>

definition is_ascii :: "char \<Rightarrow> bool" where
  "is_ascii c \<longleftrightarrow> (of_char c :: nat) < 128"

definition compare_digest :: "string \<Rightarrow> string \<Rightarrow> py_error + bool" where
  "compare_digest a b =
     (if list_all is_ascii a \<and> list_all is_ascii b then Inr (a = b) else Inl TypeError)"

text \<open>
  \<open>str.lower()\<close> on the code points up to 0xFF: the ASCII capitals, and the Latin-1
  capitals 0xC0 to 0xDE without the multiplication sign 0xD7, move up by 0x20.  Then
  \<open>sub in s\<close> for strings.
\<close>

definition lower_char :: "char \<Rightarrow> char" where
  "lower_char c =
     (let n = (of_char c :: nat)
      in if (65 \<le> n \<and> n \<le> 90) \<or> (192 \<le> n \<and> n \<le> 222 \<and> n \<noteq> 215)
         then char_of (n + 32) else c)"

definition py_lower :: "string \<Rightarrow> string" where
  "py_lower s = map lower_char s"

fun starts_with :: "string \<Rightarrow> string \<Rightarrow> bool" where
  "starts_with [] s = True"
| "starts_with (p # ps) [] = False"
| "starts_with (p # ps) (c # cs) = (p = c \<and> starts_with ps cs)"

fun str_contains :: "string \<Rightarrow> string \<Rightarrow> bool" where
  "str_contains sub [] = (sub = [])"
| "str_contains sub (c # cs) = (starts_with sub (c # cs) \<or> str_contains sub cs)"


section \<open>Conversation state machine (app/core/state\_machine.py)\<close>

datatype ConversationState =
  IDLE | QUESTION_RAISED | CLARIFYING | OWNER_ASSIGNED | IN_PROGRESS | RESOLVED

record StateTransition =
  transition_id :: string
  from_state :: ConversationState
  to_state :: ConversationState
  trigger :: string
  timestamp :: real
  metadata :: pydict

record BehaviorStateMachine =
  current_state :: ConversationState
  transitions :: "StateTransition list"
  state_timestamps :: "ConversationState \<rightharpoonup> real"

text \<open>The class attribute \<open>VALID_TRANSITIONS\<close>: a dictionary with one key per state.\<close>

fun VALID_TRANSITIONS :: "ConversationState \<rightharpoonup> ConversationState list" where
  "VALID_TRANSITIONS IDLE = Some [QUESTION_RAISED, CLARIFYING]"
| "VALID_TRANSITIONS QUESTION_RAISED = Some [CLARIFYING, OWNER_ASSIGNED, RESOLVED]"
| "VALID_TRANSITIONS CLARIFYING = Some [QUESTION_RAISED, OWNER_ASSIGNED, RESOLVED]"
| "VALID_TRANSITIONS OWNER_ASSIGNED = Some [IN_PROGRESS, CLARIFYING, RESOLVED]"
| "VALID_TRANSITIONS IN_PROGRESS = Some [RESOLVED, CLARIFYING]"
| "VALID_TRANSITIONS RESOLVED = Some [IDLE, QUESTION_RAISED]"

text \<open>\<open>__init__\<close>.\<close>

definition init_machine :: BehaviorStateMachine where
  "init_machine =
     \<lparr>current_state = IDLE, transitions = [], state_timestamps = Map.empty\<rparr>"

text \<open>\<open>can_transition\<close>: \<open>new_state in VALID_TRANSITIONS.get(current_state, [])\<close>.\<close>

definition can_transition :: "BehaviorStateMachine \<Rightarrow> ConversationState \<Rightarrow> bool" where
  "can_transition sm new_state =
     (new_state \<in> set (case VALID_TRANSITIONS (current_state sm) of
                          None \<Rightarrow> [] | Some targets \<Rightarrow> targets))"

text \<open>
  What one call of \<open>transition_to\<close> reads from its environment: the fresh
  \<open>uuid.uuid4()\<close> and the two successive readings of \<open>datetime.utcnow()\<close>.
\<close>

record transition_env =
  fresh_uuid :: string
  utcnow_record :: real
  utcnow_entry :: real

text \<open>
  \<open>transition_to\<close>: the returned pair is the method's result (\<open>None\<close> or the new
  transition) and the machine after the call.  \<open>metadata or {}\<close> turns \<open>None\<close> into the
  empty dictionary; an empty dictionary is replaced by an empty dictionary.
\<close>

definition transition_to ::
  "BehaviorStateMachine \<Rightarrow> ConversationState \<Rightarrow> string \<Rightarrow> pydict option \<Rightarrow> transition_env
     \<Rightarrow> StateTransition option \<times> BehaviorStateMachine" where
  "transition_to sm new_state trig md env =
     (if \<not> can_transition sm new_state then (None, sm)
      else
        let transition =
              \<lparr>transition_id = fresh_uuid env,
               from_state = current_state sm,
               to_state = new_state,
               trigger = trig,
               timestamp = utcnow_record env,
               metadata = (case md of None \<Rightarrow> [] | Some m \<Rightarrow> m)\<rparr>
        in (Some transition,
            sm\<lparr>transitions := transitions sm @ [transition],
               current_state := new_state,
               state_timestamps := (state_timestamps sm)(new_state \<mapsto> utcnow_entry env)\<rparr>))"

text \<open>
  \<open>get_time_in_state\<close>: \<open>state or self.current_state\<close> (an enum member is never falsy),
  then the seconds since that state's recorded entry, or \<open>0.0\<close> when it has none.  A
  \<open>datetime\<close> is never falsy, so \<open>not entry_time\<close> holds only for \<open>None\<close>.
\<close>

definition get_time_in_state ::
  "BehaviorStateMachine \<Rightarrow> ConversationState option \<Rightarrow> real \<Rightarrow> real" where
  "get_time_in_state sm state now =
     (let target_state = (case state of None \<Rightarrow> current_state sm | Some s \<Rightarrow> s)
      in case state_timestamps sm target_state of
           None \<Rightarrow> 0
         | Some entry_time \<Rightarrow> now - entry_time)"

text \<open>A caller attempting a sequence of transitions on one machine, in order.\<close>

record transition_request =
  req_state :: ConversationState
  req_trigger :: string
  req_metadata :: "pydict option"
  req_env :: transition_env

fun attempt_all ::
  "BehaviorStateMachine \<Rightarrow> transition_request list
     \<Rightarrow> StateTransition option list \<times> BehaviorStateMachine" where
  "attempt_all sm [] = ([], sm)"
| "attempt_all sm (r # rs) =
     (let (res, sm') = transition_to sm (req_state r) (req_trigger r) (req_metadata r) (req_env r);
          (ress, sm'') = attempt_all sm' rs
      in (res # ress, sm''))"

text \<open>
  The legal transition table as the specification lists it, pair by pair, to be compared
  with \<open>VALID_TRANSITIONS\<close>.
\<close>

definition spec_legal_table :: "(ConversationState \<times> ConversationState) list" where
  "spec_legal_table =
     [(IDLE, QUESTION_RAISED), (IDLE, CLARIFYING),
      (QUESTION_RAISED, CLARIFYING), (QUESTION_RAISED, OWNER_ASSIGNED), (QUESTION_RAISED, RESOLVED),
      (CLARIFYING, QUESTION_RAISED), (CLARIFYING, OWNER_ASSIGNED), (CLARIFYING, RESOLVED),
      (OWNER_ASSIGNED, IN_PROGRESS), (OWNER_ASSIGNED, CLARIFYING), (OWNER_ASSIGNED, RESOLVED),
      (IN_PROGRESS, RESOLVED), (IN_PROGRESS, CLARIFYING),
      (RESOLVED, IDLE), (RESOLVED, QUESTION_RAISED)]"

text \<open>
  The audit property of a transition list: the first entry leaves the given state and every
  later entry leaves the state the entry before it entered.
\<close>

fun chained :: "ConversationState \<Rightarrow> StateTransition list \<Rightarrow> bool" where
  "chained s [] = True"
| "chained s (t # ts) = (from_state t = s \<and> chained (to_state t) ts)"

fun final_state :: "ConversationState \<Rightarrow> StateTransition list \<Rightarrow> ConversationState" where
  "final_state s [] = s"
| "final_state s (t # ts) = final_state (to_state t) ts"


text \<open>
  The calls of \<open>test_full_resolution_flow\<close> (tests/test\_core.py), each with the
  environment it happens to read.
\<close>

definition full_resolution_flow :: "transition_request list" where
  "full_resolution_flow =
     [\<lparr>req_state = QUESTION_RAISED, req_trigger = ''question_asked'', req_metadata = None,
        req_env = \<lparr>fresh_uuid = ''u1'', utcnow_record = 1, utcnow_entry = 2\<rparr>\<rparr>,
      \<lparr>req_state = OWNER_ASSIGNED, req_trigger = ''owner_mentioned'', req_metadata = None,
        req_env = \<lparr>fresh_uuid = ''u2'', utcnow_record = 3, utcnow_entry = 4\<rparr>\<rparr>,
      \<lparr>req_state = IN_PROGRESS, req_trigger = ''work_started'', req_metadata = None,
        req_env = \<lparr>fresh_uuid = ''u3'', utcnow_record = 5, utcnow_entry = 6\<rparr>\<rparr>,
      \<lparr>req_state = RESOLVED, req_trigger = ''fix_complete'', req_metadata = None,
        req_env = \<lparr>fresh_uuid = ''u4'', utcnow_record = 7, utcnow_entry = 8\<rparr>\<rparr>]"

text \<open>
  A run in which rejected attempts stand between the successful ones: \<open>resolved\<close> is not
  reachable from \<open>idle\<close>, nor \<open>in_progress\<close> from \<open>question_raised\<close>.
\<close>

definition interrupted_flow :: "transition_request list" where
  "interrupted_flow =
     [\<lparr>req_state = RESOLVED, req_trigger = ''invalid'', req_metadata = None,
        req_env = \<lparr>fresh_uuid = ''u1'', utcnow_record = 1, utcnow_entry = 2\<rparr>\<rparr>,
      \<lparr>req_state = QUESTION_RAISED, req_trigger = ''question_asked'', req_metadata = None,
        req_env = \<lparr>fresh_uuid = ''u2'', utcnow_record = 3, utcnow_entry = 4\<rparr>\<rparr>,
      \<lparr>req_state = IN_PROGRESS, req_trigger = ''work_started'', req_metadata = None,
        req_env = \<lparr>fresh_uuid = ''u3'', utcnow_record = 5, utcnow_entry = 6\<rparr>\<rparr>,
      \<lparr>req_state = OWNER_ASSIGNED, req_trigger = ''owner_mentioned'', req_metadata = None,
        req_env = \<lparr>fresh_uuid = ''u4'', utcnow_record = 7, utcnow_entry = 8\<rparr>\<rparr>]"

text \<open>
  The machine's invariant: its transition list is chained from \<open>idle\<close> and ends in the
  current state.
\<close>

definition audit_ok :: "BehaviorStateMachine \<Rightarrow> bool" where
  "audit_ok sm \<longleftrightarrow> chained IDLE (transitions sm) \<and> final_state IDLE (transitions sm) = current_state sm"


section \<open>Event ingestion (app/services/event\_ingestion.py)\<close>

text \<open>
  \<open>SlackEvent\<close>.  The dataclass does not check its field types, so a field holds whatever
  the payload held.
\<close>

record SlackEvent =
  ev_type :: pyval
  channel :: pyval
  user :: pyval
  text_of :: pyval
  thread_ts :: pyval
  message_ts :: pyval
  event_ts :: pyval
  raw_data :: pyval

text \<open>
  \<open>EventIngestionService\<close>: the signing secret (already encoded), the optional callback,
  the unbounded queue and the running flag.  A callback either returns or raises;
  \<open>delivered\<close> lists the events the callback has been called with.
\<close>

record EventIngestionService =
  signing_secret :: string
  on_event :: "(SlackEvent \<Rightarrow> py_error option) option"
  event_queue :: "SlackEvent list"
  running :: bool
  delivered :: "SlackEvent list"

text \<open>
  \<open>verify_signature\<close>.  The first argument stands for
  \<open>hmac.new(key, msg, hashlib.sha256).hexdigest()\<close>, the second for \<open>time.time()\<close>.  The
  base string is \<open>"v0:" + timestamp\<close>, encoded, followed directly by the body.
\<close>

definition verify_signature ::
  "(string \<Rightarrow> string \<Rightarrow> string) \<Rightarrow> real \<Rightarrow> EventIngestionService
     \<Rightarrow> string \<Rightarrow> string \<Rightarrow> string \<Rightarrow> py_error + bool" where
  "verify_signature hmac_hex now svc ts signature body =
     (case py_int ts of
        Inl e \<Rightarrow> Inl e
      | Inr n \<Rightarrow>
          (case int_to_float n of
             Inl e \<Rightarrow> Inl e
           | Inr x \<Rightarrow>
               if \<bar>now - x\<bar> > 60 * 5 then Inr False
               else
                 let sig_basestring = encode (''v0:'' @ ts) @ body;
                     my_signature = ''v0='' @ hmac_hex (signing_secret svc) sig_basestring
                 in compare_digest my_signature signature))"

text \<open>
  \<open>_parse_event\<close>: \<open>None\<close> for every event whose type is neither \<open>message\<close> nor
  \<open>app_mention\<close>; missing channel and time stamps become the empty string.
\<close>

definition parse_event :: "pyval \<Rightarrow> py_error + SlackEvent option" where
  "parse_event event =
     (case event of
        PDict d \<Rightarrow>
          (let event_type = dict_get d ''type'' PNone
           in if event_type \<notin> set [PStr ''message'', PStr ''app_mention''] then Inr None
              else
                let chan = py_or (dict_get d ''channel'' PNone) (PStr []);
                    mts = py_or (dict_get d ''ts'' PNone) (PStr []);
                    ets = py_or (dict_get d ''event_ts'' PNone) mts
                in Inr (Some \<lparr>ev_type = event_type,
                                channel = chan,
                                user = dict_get d ''user'' PNone,
                                text_of = dict_get d ''text'' (PStr []),
                                thread_ts = dict_get d ''thread_ts'' PNone,
                                message_ts = mts,
                                event_ts = ets,
                                raw_data = event\<rparr>))
      | _ \<Rightarrow> Inl AttributeError)"

text \<open>
  \<open>_process_event_callback\<close>: a parsed event is put on the queue, then handed to the
  callback when there is one.  The result is the exception raised, if any, and the service
  as the call leaves it.
\<close>

definition process_event_callback ::
  "EventIngestionService \<Rightarrow> pyval \<Rightarrow> py_error option \<times> EventIngestionService" where
  "process_event_callback svc event =
     (case parse_event event of
        Inl e \<Rightarrow> (Some e, svc)
      | Inr None \<Rightarrow> (None, svc)
      | Inr (Some validated_event) \<Rightarrow>
          (let svc' = svc\<lparr>event_queue := event_queue svc @ [validated_event]\<rparr>
           in case on_event svc' of
                None \<Rightarrow> (None, svc')
              | Some callback \<Rightarrow>
                  (callback validated_event,
                   svc'\<lparr>delivered := delivered svc' @ [validated_event]\<rparr>)))"

text \<open>
  \<open>handle_slack_event\<close>: the response dictionary or the exception raised, and the service
  after the call.
\<close>

definition handle_slack_event ::
  "(string \<Rightarrow> string \<Rightarrow> string) \<Rightarrow> real \<Rightarrow> EventIngestionService
     \<Rightarrow> pyval \<Rightarrow> string \<Rightarrow> string \<Rightarrow> string \<Rightarrow> (py_error + pydict) \<times> EventIngestionService" where
  "handle_slack_event hmac_hex now svc event_data ts signature body =
     (case verify_signature hmac_hex now svc ts signature body of
        Inl e \<Rightarrow> (Inl e, svc)
      | Inr is_valid \<Rightarrow>
          if \<not> is_valid then (Inl (ValueError ''Invalid Slack signature''), svc)
          else
            (case py_get event_data ''type'' PNone of
               Inl e \<Rightarrow> (Inl e, svc)
             | Inr event_type \<Rightarrow>
                 if event_type = PStr ''url_verification''
                 then (case py_get event_data ''challenge'' PNone of
                         Inl e \<Rightarrow> (Inl e, svc)
                       | Inr c \<Rightarrow> (Inr [(''challenge'', c)], svc))
                 else if event_type = PStr ''event_callback''
                 then (case py_get event_data ''event'' (PDict []) of
                         Inl e \<Rightarrow> (Inl e, svc)
                       | Inr event \<Rightarrow>
                           (case process_event_callback svc event of
                              (Some e, svc') \<Rightarrow> (Inl e, svc')
                            | (None, svc') \<Rightarrow> (Inr [(''ok'', PBool True)], svc')))
                 else (Inr [(''ok'', PBool True)], svc)))"


section \<open>Security manager (app/core/security.py)\<close>



section \<open>Event endpoints (app/api/events.py)\<close>

text \<open>
  What the endpoints read of a request: its headers and the outcome of decoding its body
  as JSON (a decoding error is a \<open>ValueError\<close>).
\<close>

record http_request =
  headers :: "(string \<times> string) list"
  json_body :: "py_error + pyval"

fun header_get :: "(string \<times> string) list \<Rightarrow> string \<Rightarrow> string \<Rightarrow> string" where
  "header_get [] k dflt = dflt"
| "header_get ((k', v) # kvs) k dflt = (if k' = k then v else header_get kvs k dflt)"




text \<open>
  \<open>GET /events/slack\<close>: the handler receives the request and the \<open>challenge\<close> query
  parameter and answers with the parameter.
\<close>

definition slack_url_verification :: "http_request \<Rightarrow> string \<Rightarrow> pydict" where
  "slack_url_verification request challenge = [(''challenge'', PStr challenge)]"


text \<open>
  Concrete inputs: a service without callback, a stand-in for the keyed hash that returns
  the same digest for every message, a request without any header, and two payloads.
\<close>

definition example_service :: EventIngestionService where
  "example_service =
     \<lparr>signing_secret = ''secret'', on_event = None, event_queue = [], running = False,
      delivered = []\<rparr>"

definition const_hmac :: "string \<Rightarrow> string \<Rightarrow> string" where
  "const_hmac key msg = ''00''"

definition probe_request :: http_request where
  "probe_request = \<lparr>headers = [], json_body = Inr PNone\<rparr>"

definition handshake_payload :: pydict where
  "handshake_payload = [(''type'', PStr ''url_verification''), (''challenge'', PStr ''c1'')]"

definition reaction_payload :: pydict where
  "reaction_payload =
     [(''type'', PStr ''event_callback''),
      (''event'', PDict [(''type'', PStr ''reaction_added''), (''user'', PStr ''U123'')])]"



section \<open>Coordination agent (app/agents/coordinator.py)\<close>

text \<open>
  The \<open>reason\<close> of a decision is a formatted sentence; the model keeps the sentence's kind
  and the number formatted into it.
\<close>

datatype decision_reason =
    NoOwnerAssignedAfterHours int
  | ClarificationLoopsDetected int
  | UnansweredQuestionForHours real
  | HighSeverityGapDetected real

record CoordinationDecision =
  action :: string
  reason :: decision_reason
  priority :: string
  decision_metadata :: pydict

text \<open>The class attribute \<open>THRESHOLDS\<close>, a dictionary with four literal keys.\<close>

record thresholds =
  ownership_timeout_hours :: int
  clarification_max_loops :: int
  response_timeout_hours :: int
  resolution_stall_hours :: int

definition THRESHOLDS :: thresholds where
  "THRESHOLDS =
     \<lparr>ownership_timeout_hours = 24, clarification_max_loops = 3,
      response_timeout_hours = 4, resolution_stall_hours = 48\<rparr>"

text \<open>\<open>max\<close> of a non-empty list, head first: a later element wins only when greater.\<close>

fun py_max :: "real \<Rightarrow> real list \<Rightarrow> real" where
  "py_max m [] = m"
| "py_max m (x # xs) = py_max (if x > m then x else m) xs"

text \<open>
  \<open>evaluate\<close>, with the reading of \<open>datetime.utcnow()\<close> as first argument.  Each rule of
  the source is a chain of nested \<open>if\<close>s around one \<open>return\<close>; a chain that does not reach
  its \<open>return\<close> falls through to the next rule, so each chain is a conjunction.
\<close>

definition evaluate ::
  "real \<Rightarrow> string \<Rightarrow> real \<Rightarrow> string \<Rightarrow> bool \<Rightarrow> real list \<Rightarrow> int \<Rightarrow> real
     \<Rightarrow> CoordinationDecision option" where
  "evaluate now conversation_state time_in_state signal_intent signal_needs_owner
            gap_severities clarification_count last_activity_at =
     (let hours_since_activity = (now - last_activity_at) / 3600
      in if conversation_state = ''question_raised'' \<and> signal_needs_owner
            \<and> time_in_state > real_of_int (ownership_timeout_hours THRESHOLDS * 3600)
         then Some \<lparr>action = ''prompt_ownership'',
                     reason = NoOwnerAssignedAfterHours (ownership_timeout_hours THRESHOLDS),
                     priority = ''high'',
                     decision_metadata = [(''hours_elapsed'', PFloat (Fin (time_in_state / 3600)))]\<rparr>
         else if conversation_state \<in> set [''question_raised'', ''clarifying'']
                 \<and> clarification_count \<ge> clarification_max_loops THRESHOLDS
         then Some \<lparr>action = ''suggest_context'',
                     reason = ClarificationLoopsDetected clarification_count,
                     priority = ''medium'',
                     decision_metadata = [(''clarification_count'', PInt clarification_count)]\<rparr>
         else if signal_intent = ''question''
                 \<and> hours_since_activity > real_of_int (response_timeout_hours THRESHOLDS)
         then Some \<lparr>action = ''nudge_response'',
                     reason = UnansweredQuestionForHours hours_since_activity,
                     priority = ''medium'',
                     decision_metadata = [(''hours_since_activity'', PFloat (Fin hours_since_activity))]\<rparr>
         else (case gap_severities of
                 [] \<Rightarrow> None
               | g # gs \<Rightarrow>
                   let max_severity = py_max g gs
                   in if max_severity > 7 / 10
                      then Some \<lparr>action = ''flag_gap'',
                                  reason = HighSeverityGapDetected max_severity,
                                  priority = ''high'',
                                  decision_metadata = [(''max_severity'', PFloat (Fin max_severity))]\<rparr>
                      else None))"

text \<open>
  The decision rules as the specification words them: an ordered list of conditions, each
  with the action and priority it yields, of which the first that holds is taken.
\<close>

fun first_match :: "(bool \<times> 'a) list \<Rightarrow> 'a option" where
  "first_match [] = None"
| "first_match ((c, d) # rules) = (if c then Some d else first_match rules)"

definition spec_rules ::
  "real \<Rightarrow> string \<Rightarrow> real \<Rightarrow> string \<Rightarrow> bool \<Rightarrow> real list \<Rightarrow> int \<Rightarrow> real
     \<Rightarrow> (bool \<times> string \<times> string) list" where
  "spec_rules now state time_in_state intent_name needsOwner gapSeverities clarificationCount
              last_activity_at =
     [(state = ''question_raised'' \<and> needsOwner \<and> time_in_state > 24 * 3600,
         (''prompt_ownership'', ''high'')),
      ((state = ''question_raised'' \<or> state = ''clarifying'') \<and> clarificationCount \<ge> 3,
         (''suggest_context'', ''medium'')),
      (intent_name = ''question'' \<and> (now - last_activity_at) / 3600 > 4,
         (''nudge_response'', ''medium'')),
      (gapSeverities \<noteq> [] \<and> Max (set gapSeverities) > 7 / 10,
         (''flag_gap'', ''high''))]"


section \<open>Understanding agent (app/agents/understanding.py)\<close>

datatype IntentType = QUESTION | BUG_REPORT | UPDATE | RESOLUTION

fun intent_value :: "IntentType \<Rightarrow> string" where
  "intent_value QUESTION = ''question''"
| "intent_value BUG_REPORT = ''bug_report''"
| "intent_value UPDATE = ''update''"
| "intent_value RESOLUTION = ''resolution''"

record BehavioralSignal =
  intent :: IntentType
  topic :: string
  needs_owner :: bool
  uncertainty :: pyfloat
  confidence :: pyfloat
  entities :: "string list"
  implied_action :: pyval

text \<open>The output fields of one prediction of the language-model predictor.\<close>

record prediction =
  p_intent :: pyval
  p_confidence :: pyval
  p_topic :: pyval
  p_entities :: pyval
  p_needs_owner :: pyval
  p_implied_action :: pyval

text \<open>
  Library functions whose results are taken as given: \<open>float\<close> of a string (\<open>None\<close> for a
  \<open>ValueError\<close>), \<open>json.loads\<close> (\<open>None\<close> for a \<open>JSONDecodeError\<close>) and \<open>str\<close> of a value.
\<close>

record py_runtime =
  float_of_str :: "string \<Rightarrow> pyfloat option"
  json_loads :: "string \<Rightarrow> pyval option"
  str_of :: "pyval \<Rightarrow> string"

text \<open>
  \<open>UnderstandingAgent\<close>: its predictor, called with the message and the context, returns
  a prediction or raises.
\<close>

record UnderstandingAgent =
  analyzer :: "string \<Rightarrow> string \<Rightarrow> py_error + prediction"

text \<open>Float comparison and the two-argument \<open>min\<close>, \<open>max\<close> and subtraction on floats.\<close>

fun float_less :: "pyfloat \<Rightarrow> pyfloat \<Rightarrow> bool" where
  "float_less (Fin a) (Fin b) = (a < b)"
| "float_less (Fin a) PosInf = True"
| "float_less NegInf (Fin b) = True"
| "float_less NegInf PosInf = True"
| "float_less a b = False"

definition py_min2 :: "pyfloat \<Rightarrow> pyfloat \<Rightarrow> pyfloat" where
  "py_min2 a b = (if float_less b a then b else a)"

definition py_max2 :: "pyfloat \<Rightarrow> pyfloat \<Rightarrow> pyfloat" where
  "py_max2 a b = (if float_less a b then b else a)"

fun float_sub :: "pyfloat \<Rightarrow> pyfloat \<Rightarrow> pyfloat" where
  "float_sub (Fin a) (Fin b) = Fin (a - b)"
| "float_sub NaN b = NaN"
| "float_sub a NaN = NaN"
| "float_sub PosInf PosInf = NaN"
| "float_sub NegInf NegInf = NaN"
| "float_sub PosInf b = PosInf"
| "float_sub NegInf b = NegInf"
| "float_sub (Fin a) PosInf = NegInf"
| "float_sub (Fin a) NegInf = PosInf"

text \<open>
  \<open>_parse_float\<close>: \<open>None\<close> gives the default; \<open>float(value)\<close> failing with \<open>ValueError\<close> or
  \<open>TypeError\<close> gives the default; the \<open>OverflowError\<close> of a huge integer is not caught here.
\<close>

fun parse_float :: "py_runtime \<Rightarrow> pyval \<Rightarrow> pyfloat \<Rightarrow> py_error + pyfloat" where
  "parse_float rt PNone dflt = Inr dflt"
| "parse_float rt (PBool b) dflt = Inr (Fin (if b then 1 else 0))"
| "parse_float rt (PInt i) dflt =
     (case int_to_float i of Inl e \<Rightarrow> Inl e | Inr x \<Rightarrow> Inr (Fin x))"
| "parse_float rt (PFloat x) dflt = Inr x"
| "parse_float rt (PStr s) dflt =
     (case float_of_str rt s of None \<Rightarrow> Inr dflt | Some x \<Rightarrow> Inr x)"
| "parse_float rt (PList xs) dflt = Inr dflt"
| "parse_float rt (PDict kvs) dflt = Inr dflt"

text \<open>\<open>_parse_bool\<close>.\<close>

fun parse_bool :: "pyval \<Rightarrow> bool" where
  "parse_bool PNone = False"
| "parse_bool (PBool b) = b"
| "parse_bool (PStr s) = (py_lower s \<in> set [''true'', ''1'', ''yes'', ''y''])"
| "parse_bool v = truthy v"

text \<open>\<open>_parse_list\<close>.\<close>

fun parse_list :: "py_runtime \<Rightarrow> pyval \<Rightarrow> string list" where
  "parse_list rt PNone = []"
| "parse_list rt (PList xs) = map (str_of rt) (filter truthy xs)"
| "parse_list rt (PStr s) =
     (case json_loads rt s of
        None \<Rightarrow> if py_strip s \<noteq> [] then [s] else []
      | Some (PList xs) \<Rightarrow> map (str_of rt) (filter truthy xs)
      | Some v \<Rightarrow> [])"
| "parse_list rt v = []"

text \<open>\<open>_parse_intent\<close>: only a string has \<open>lower\<close>.\<close>

fun parse_intent :: "pyval \<Rightarrow> py_error + IntentType" where
  "parse_intent (PStr intent_str) =
     (let intent_lower = py_strip (py_lower intent_str)
      in if str_contains ''question'' intent_lower then Inr QUESTION
         else if str_contains ''bug'' intent_lower \<or> str_contains ''issue'' intent_lower
         then Inr BUG_REPORT
         else if str_contains ''fix'' intent_lower \<or> str_contains ''resolve'' intent_lower
                 \<or> str_contains ''done'' intent_lower
         then Inr RESOLUTION
         else Inr UPDATE)"
| "parse_intent v = Inl AttributeError"

text \<open>\<open>result.topic.lower().strip() if result.topic else "unknown"\<close>.\<close>

definition parse_topic :: "pyval \<Rightarrow> py_error + string" where
  "parse_topic t =
     (if truthy t
      then (case t of PStr s \<Rightarrow> Inr (py_strip (py_lower s)) | _ \<Rightarrow> Inl AttributeError)
      else Inr ''unknown'')"

text \<open>The context string built from the last five history entries.\<close>

fun join_lines :: "string list \<Rightarrow> string" where
  "join_lines [] = []"
| "join_lines [l] = l"
| "join_lines (l # ls) = l @ [CHR 0x0A] @ join_lines ls"

definition build_context :: "string list option \<Rightarrow> string" where
  "build_context conversation_history =
     (case conversation_history of
        None \<Rightarrow> []
      | Some h \<Rightarrow>
          if h = [] then []
          else ''Recent messages:'' @ [CHR 0x0A]
               @ join_lines (map (\<lambda>m. ''- '' @ take 200 m) (drop (length h - 5) h)))"

text \<open>The signal returned by the \<open>except\<close> branch.\<close>

definition default_signal :: BehavioralSignal where
  "default_signal =
     \<lparr>intent = UPDATE, topic = ''unknown'', needs_owner = False,
      uncertainty = Fin 1, confidence = Fin (1 / 2), entities = [], implied_action = PNone\<rparr>"

text \<open>The body of the \<open>try\<close> block of \<open>analyze_message\<close>, in the order it evaluates.\<close>

definition analyze_try ::
  "py_runtime \<Rightarrow> UnderstandingAgent \<Rightarrow> string \<Rightarrow> string \<Rightarrow> py_error + BehavioralSignal" where
  "analyze_try rt agent message ctx =
     (case analyzer agent message ctx of
        Inl e \<Rightarrow> Inl e
      | Inr result \<Rightarrow>
          (case parse_float rt (p_confidence result) (Fin (1 / 2)) of
             Inl e \<Rightarrow> Inl e
           | Inr c0 \<Rightarrow>
               let conf = py_max2 (Fin 0) (py_min2 (Fin 1) c0);
                   ents = parse_list rt (p_entities result);
                   owner = parse_bool (p_needs_owner result)
               in (case parse_intent (p_intent result) of
                     Inl e \<Rightarrow> Inl e
                   | Inr i \<Rightarrow>
                       (case parse_topic (p_topic result) of
                          Inl e \<Rightarrow> Inl e
                        | Inr t \<Rightarrow>
                            Inr \<lparr>intent = i, topic = t, needs_owner = owner,
                                 uncertainty = float_sub (Fin 1) conf, confidence = conf,
                                 entities = ents,
                                 implied_action =
                                   (if truthy (p_implied_action result)
                                    then p_implied_action result else PNone)\<rparr>))))"

text \<open>\<open>analyze_message\<close>: every exception of the \<open>try\<close> block is replaced by the default signal.\<close>

definition analyze_message ::
  "py_runtime \<Rightarrow> UnderstandingAgent \<Rightarrow> string \<Rightarrow> string list option \<Rightarrow> BehavioralSignal" where
  "analyze_message rt agent message conversation_history =
     (case analyze_try rt agent message (build_context conversation_history) of
        Inl e \<Rightarrow> default_signal
      | Inr signal \<Rightarrow> signal)"

text \<open>The invariant the data model states for a signal.\<close>

definition signal_invariant :: "BehavioralSignal \<Rightarrow> bool" where
  "signal_invariant s \<longleftrightarrow>
     (case confidence s of
        Fin c \<Rightarrow> 0 \<le> c \<and> c \<le> 1 \<and> uncertainty s = Fin (1 - c)
      | _ \<Rightarrow> False)"

text \<open>A predictor that always raises, and a runtime whose library functions reject everything.\<close>

definition failing_agent :: UnderstandingAgent where
  "failing_agent = \<lparr>analyzer = (\<lambda>message ctx. Inl (OtherError ''language model unavailable''))\<rparr>"

definition plain_runtime :: py_runtime where
  "plain_runtime =
     \<lparr>float_of_str = (\<lambda>s. None), json_loads = (\<lambda>s. None), str_of = (\<lambda>v. [])\<rparr>"


section \<open>Gap detection (app/services/analytics.py)\<close>

datatype GapType = OWNERSHIP | CONTEXT | RESPONSE | RESOLUTION_GAP

text \<open>
  The rows \<open>detect_gaps\<close> reads, with the columns it reads.  The conversation states of
  \<open>app.models.database\<close> are the six states of the state machine.
\<close>

record Conversation =
  conv_id :: string
  conv_current_state :: "ConversationState option"

record TransitionRow =
  tr_conversation_id :: string
  tr_to_state :: ConversationState
  tr_timestamp :: real

record Message =
  msg_conversation_id :: string
  msg_content :: string
  msg_extracted_intent :: "IntentType option"
  msg_timestamp :: real

datatype gap_description = NoOwnerAssignedWithin24Hours | SimilarQuestionsAskedTimes nat

text \<open>A gap as returned (a dictionary with these five keys) and as stored.\<close>

record gap_data =
  gap_id :: string
  gap_type :: GapType
  severity :: real
  description :: gap_description
  detected_at :: real

record CommunicationGap =
  cg_id :: string
  cg_conversation_id :: string
  cg_gap_type :: GapType
  cg_detected_at :: real
  cg_severity :: real
  cg_description :: gap_description

record database =
  conversations :: "Conversation list"
  state_transitions :: "TransitionRow list"
  messages :: "Message list"
  communication_gaps :: "CommunicationGap list"

text \<open>
  What one call reads from its environment: the clock, and the first two results of
  \<open>uuid.uuid4()\<close>.
\<close>

record gap_env =
  utcnow :: real
  uuid_first :: string
  uuid_second :: string

text \<open>The three queries: first match by id, and the rows of a conversation by time stamp.\<close>

definition query_conversation :: "database \<Rightarrow> string \<Rightarrow> Conversation option" where
  "query_conversation db cid = find (\<lambda>c. conv_id c = cid) (conversations db)"

definition query_transitions :: "database \<Rightarrow> string \<Rightarrow> TransitionRow list" where
  "query_transitions db cid =
     sort_key tr_timestamp (filter (\<lambda>t. tr_conversation_id t = cid) (state_transitions db))"

definition query_messages :: "database \<Rightarrow> string \<Rightarrow> Message list" where
  "query_messages db cid =
     sort_key msg_timestamp (filter (\<lambda>m. msg_conversation_id m = cid) (messages db))"

text \<open>
  \<open>msg.extracted_intent and "question" in msg.extracted_intent.value\<close>; a member of a
  string-valued enumeration is truthy when its value is non-empty.
\<close>

definition is_question :: "Message \<Rightarrow> bool" where
  "is_question m =
     (case msg_extracted_intent m of
        None \<Rightarrow> False
      | Some i \<Rightarrow> intent_value i \<noteq> [] \<and> str_contains ''question'' (intent_value i))"

text \<open>
  The nested loops counting similar questions.  The outer loop runs over
  \<open>enumerate(messages[:10])\<close>: the first argument is the number of outer iterations left,
  the second the messages from the current one on.  The inner loop runs over every message
  after the current one.
\<close>

fun count_similar :: "nat \<Rightarrow> Message list \<Rightarrow> nat" where
  "count_similar 0 ms = 0"
| "count_similar (Suc n) [] = 0"
| "count_similar (Suc n) (msg1 # rest) =
     (if is_question msg1
      then length (filter (\<lambda>msg2. is_question msg2
                                 \<and> take 100 (msg_content msg1) = take 100 (msg_content msg2)) rest)
      else 0)
     + count_similar n rest"

text \<open>\<open>min(1.0, time_since_question / 72)\<close>.\<close>

definition ownership_severity :: "real \<Rightarrow> real" where
  "ownership_severity time_since_question = min 1 (time_since_question / 72)"

text \<open>The part of \<open>detect_gaps\<close> that appends the ownership gap.\<close>

definition ownership_gaps :: "Conversation \<Rightarrow> TransitionRow list \<Rightarrow> gap_env \<Rightarrow> gap_data list" where
  "ownership_gaps conversation trs env =
     (if conv_current_state conversation = Some QUESTION_RAISED
         \<and> \<not> list_ex (\<lambda>t. tr_to_state t = OWNER_ASSIGNED) trs
      then
        let time_since_question =
              (if trs \<noteq> [] then (utcnow env - tr_timestamp (last trs)) / 3600 else 0)
        in if time_since_question > 24
           then [\<lparr>gap_id = uuid_first env, gap_type = OWNERSHIP,
                  severity = ownership_severity time_since_question,
                  description = NoOwnerAssignedWithin24Hours,
                  detected_at = utcnow env\<rparr>]
           else []
      else [])"

text \<open>The part that appends the context gap; it takes the next unused identifier.\<close>

definition context_gaps :: "Message list \<Rightarrow> gap_env \<Rightarrow> gap_data list \<Rightarrow> gap_data list" where
  "context_gaps msgs env gaps =
     (let similar_questions = count_similar 10 msgs
      in if similar_questions \<ge> 2
         then [\<lparr>gap_id = (if gaps = [] then uuid_first env else uuid_second env),
                gap_type = CONTEXT,
                severity = 6 / 10,
                description = SimilarQuestionsAskedTimes (similar_questions + 1),
                detected_at = utcnow env\<rparr>]
         else [])"

definition store_gap :: "string \<Rightarrow> gap_data \<Rightarrow> CommunicationGap" where
  "store_gap cid g =
     \<lparr>cg_id = gap_id g, cg_conversation_id = cid, cg_gap_type = gap_type g,
      cg_detected_at = detected_at g, cg_severity = severity g,
      cg_description = description g\<rparr>"

text \<open>\<open>detect_gaps\<close>: the list returned and the database after the call.\<close>

definition detect_gaps :: "database \<Rightarrow> string \<Rightarrow> gap_env \<Rightarrow> gap_data list \<times> database" where
  "detect_gaps db conversation_id env =
     (case query_conversation db conversation_id of
        None \<Rightarrow> ([], db)
      | Some conversation \<Rightarrow>
          let trs = query_transitions db conversation_id;
              msgs = query_messages db conversation_id;
              gaps0 = ownership_gaps conversation trs env;
              gaps = gaps0 @ context_gaps msgs env gaps0
          in (gaps,
              db\<lparr>communication_gaps := communication_gaps db @ map (store_gap conversation_id) gaps\<rparr>))"

text \<open>
  The similarity pass as the specification words it: the window is the most recent ten
  messages, and a repeat is a pair of question messages inside the window with the same
  first hundred characters.
\<close>

definition spec_window :: "Message list \<Rightarrow> Message list" where
  "spec_window msgs = drop (length msgs - 10) msgs"

fun spec_repeated_pairs :: "Message list \<Rightarrow> nat" where
  "spec_repeated_pairs [] = 0"
| "spec_repeated_pairs (m # ms) =
     length (filter (\<lambda>m'. is_question m \<and> is_question m'
                          \<and> take 100 (msg_content m) = take 100 (msg_content m')) ms)
     + spec_repeated_pairs ms"


text \<open>
  Concrete databases: a conversation whose only transition, into \<open>question_raised\<close>, is
  48 hours old; a conversation of thirteen messages whose three identical questions come
  last; and one whose three identical questions come first.
\<close>

definition stalled_db :: database where
  "stalled_db =
     \<lparr>conversations = [\<lparr>conv_id = ''c1'', conv_current_state = Some QUESTION_RAISED\<rparr>],
      state_transitions =
        [\<lparr>tr_conversation_id = ''c1'', tr_to_state = QUESTION_RAISED, tr_timestamp = 0\<rparr>],
      messages = [],
      communication_gaps = []\<rparr>"

definition after_48_hours :: gap_env where
  "after_48_hours = \<lparr>utcnow = 172800, uuid_first = ''g1'', uuid_second = ''g2''\<rparr>"

definition update_msg :: "real \<Rightarrow> Message" where
  "update_msg t =
     \<lparr>msg_conversation_id = ''c1'', msg_content = ''deployed the fix'',
      msg_extracted_intent = Some UPDATE, msg_timestamp = t\<rparr>"

definition question_msg :: "real \<Rightarrow> Message" where
  "question_msg t =
     \<lparr>msg_conversation_id = ''c1'', msg_content = ''who owns the login bug?'',
      msg_extracted_intent = Some QUESTION, msg_timestamp = t\<rparr>"

definition late_questions_db :: database where
  "late_questions_db =
     \<lparr>conversations = [\<lparr>conv_id = ''c1'', conv_current_state = Some CLARIFYING\<rparr>],
      state_transitions = [],
      messages =
        [update_msg 1, update_msg 2, update_msg 3, update_msg 4, update_msg 5,
         update_msg 6, update_msg 7, update_msg 8, update_msg 9, update_msg 10,
         question_msg 11, question_msg 12, question_msg 13],
      communication_gaps = []\<rparr>"

definition early_questions_db :: database where
  "early_questions_db =
     \<lparr>conversations = [\<lparr>conv_id = ''c1'', conv_current_state = Some CLARIFYING\<rparr>],
      state_transitions = [],
      messages =
        [question_msg 1, question_msg 2, question_msg 3,
         update_msg 4, update_msg 5, update_msg 6, update_msg 7, update_msg 8,
         update_msg 9, update_msg 10, update_msg 11, update_msg 12, update_msg 13],
      communication_gaps = []\<rparr>"


section \<open>State machine: transition legality and audit\<close>

lemma can_transition_table:
  "can_transition sm new_state \<longleftrightarrow> (current_state sm, new_state) \<in> set spec_legal_table"
  by (cases "current_state sm"; cases new_state) (simp_all add: can_transition_def spec_legal_table_def)

text \<open>
  C1.  Whatever the machine, when the pair (current state, requested state) is not in the
  legal transition table, \<open>transition_to\<close> returns \<open>None\<close> and the machine after the call is
  the machine before it: \<open>current_state\<close>, \<open>transitions\<close> and \<open>state_timestamps\<close> are
  untouched.  The call has no failure branch, so nothing is raised.
\<close>

theorem transition_to_illegal_is_noop:
  assumes "(current_state sm, new_state) \<notin> set spec_legal_table"
  shows "transition_to sm new_state trig md env = (None, sm)
       \<and> current_state (snd (transition_to sm new_state trig md env)) = current_state sm
       \<and> transitions (snd (transition_to sm new_state trig md env)) = transitions sm
       \<and> state_timestamps (snd (transition_to sm new_state trig md env)) = state_timestamps sm"
  using assms by (simp add: transition_to_def can_transition_table)

theorem transition_to_illegal_is_noop_witness:
  "(current_state init_machine, RESOLVED) \<notin> set spec_legal_table
   \<and> transition_to init_machine RESOLVED ''invalid'' None
        \<lparr>fresh_uuid = ''u1'', utcnow_record = 10, utcnow_entry = 11\<rparr> = (None, init_machine)
   \<and> current_state (snd (transition_to init_machine RESOLVED ''invalid'' None
        \<lparr>fresh_uuid = ''u1'', utcnow_record = 10, utcnow_entry = 11\<rparr>)) = IDLE"
proof -
  have h: "(current_state init_machine, RESOLVED) \<notin> set spec_legal_table"
    by (simp add: init_machine_def spec_legal_table_def)
  from transition_to_illegal_is_noop [OF h, of "''invalid''" None
      "\<lparr>fresh_uuid = ''u1'', utcnow_record = 10, utcnow_entry = 11\<rparr>"]
  show ?thesis using h by (simp add: init_machine_def)
qed

lemma chained_append:
  "chained s (ts @ [t]) \<longleftrightarrow> chained s ts \<and> from_state t = final_state s ts"
  by (induction ts arbitrary: s) auto

lemma final_state_append: "final_state s (ts @ [t]) = to_state t"
  by (induction ts arbitrary: s) auto

lemma audit_ok_init: "audit_ok init_machine"
  by (simp add: audit_ok_def init_machine_def)

lemma transition_to_audit_ok:
  "audit_ok sm \<Longrightarrow> audit_ok (snd (transition_to sm new_state trig md env))"
  by (simp add: audit_ok_def transition_to_def Let_def chained_append final_state_append)

lemma transition_to_length:
  "length (transitions (snd (transition_to sm new_state trig md env))) =
     length (transitions sm) + (if fst (transition_to sm new_state trig md env) = None then 0 else 1)"
  by (simp add: transition_to_def Let_def)

lemma attempt_all_audit_ok:
  "audit_ok sm \<Longrightarrow> audit_ok (snd (attempt_all sm rs))"
proof (induction rs arbitrary: sm)
  case Nil
  then show ?case by simp
next
  case (Cons r rs)
  let ?step = "transition_to sm (req_state r) (req_trigger r) (req_metadata r) (req_env r)"
  have "audit_ok (snd ?step)" using Cons.prems by (rule transition_to_audit_ok)
  then have "audit_ok (snd (attempt_all (snd ?step) rs))" by (rule Cons.IH)
  then show ?case by (simp add: split_beta Let_def)
qed

lemma attempt_all_length:
  "length (transitions (snd (attempt_all sm rs))) =
     length (transitions sm) + length (filter (\<lambda>res. res \<noteq> None) (fst (attempt_all sm rs)))"
proof (induction rs arbitrary: sm)
  case Nil
  then show ?case by simp
next
  case (Cons r rs)
  let ?step = "transition_to sm (req_state r) (req_trigger r) (req_metadata r) (req_env r)"
  show ?case
    using Cons.IH [of "snd ?step"] transition_to_length [of sm "req_state r" "req_trigger r" "req_metadata r" "req_env r"]
    by (simp add: split_beta Let_def)
qed

lemma attempt_all_results_length: "length (fst (attempt_all sm rs)) = length rs"
  by (induction rs arbitrary: sm) (simp_all add: split_beta Let_def)

lemma transition_to_transitions:
  "transitions (snd (transition_to sm new_state trig md env)) =
     transitions sm
     @ (case fst (transition_to sm new_state trig md env) of None \<Rightarrow> [] | Some t \<Rightarrow> [t])"
  by (simp add: transition_to_def Let_def)

lemma attempt_all_transitions:
  "transitions (snd (attempt_all sm rs))
     = transitions sm @ List.map_filter id (fst (attempt_all sm rs))"
proof (induction rs arbitrary: sm)
  case Nil
  then show ?case by (simp add: List.map_filter_simps)
next
  case (Cons r rs)
  let ?step = "transition_to sm (req_state r) (req_trigger r) (req_metadata r) (req_env r)"
  show ?case
    using Cons.IH [of "snd ?step"]
      transition_to_transitions [of sm "req_state r" "req_trigger r" "req_metadata r" "req_env r"]
    by (simp add: split_beta Let_def List.map_filter_simps split: option.splits)
qed

text \<open>
  C8.  Start from a freshly initialised machine and make any sequence of calls of
  \<open>transition_to\<close>, successful or rejected in any order.  Then \<open>transitions\<close> has exactly as
  many entries as calls succeeded, it consists of the transitions those calls returned, in
  order, the first entry's \<open>from_state\<close> is \<open>idle\<close>, and every later entry's \<open>from_state\<close> is
  the \<open>to_state\<close> of the entry before it.  In particular, when all N calls succeed the list
  has length N.
\<close>

theorem transitions_audit:
  "length (transitions (snd (attempt_all init_machine rs)))
     = length (filter (\<lambda>res. res \<noteq> None) (fst (attempt_all init_machine rs)))
   \<and> transitions (snd (attempt_all init_machine rs))
       = List.map_filter id (fst (attempt_all init_machine rs))
   \<and> chained IDLE (transitions (snd (attempt_all init_machine rs)))
   \<and> (None \<notin> set (fst (attempt_all init_machine rs)) \<longrightarrow>
        length (transitions (snd (attempt_all init_machine rs))) = length rs)"
proof -
  have n: "length (transitions (snd (attempt_all init_machine rs)))
     = length (filter (\<lambda>res. res \<noteq> None) (fst (attempt_all init_machine rs)))"
    using attempt_all_length [of init_machine rs] by (simp add: init_machine_def)
  have t: "transitions (snd (attempt_all init_machine rs))
       = List.map_filter id (fst (attempt_all init_machine rs))"
    using attempt_all_transitions [of init_machine rs] by (simp add: init_machine_def)
  have c: "chained IDLE (transitions (snd (attempt_all init_machine rs)))"
    using attempt_all_audit_ok [OF audit_ok_init, of rs] by (simp add: audit_ok_def)
  have a: "None \<notin> set (fst (attempt_all init_machine rs)) \<longrightarrow>
        length (transitions (snd (attempt_all init_machine rs))) = length rs"
  proof
    assume "None \<notin> set (fst (attempt_all init_machine rs))"
    then have "filter (\<lambda>res. res \<noteq> None) (fst (attempt_all init_machine rs))
                 = fst (attempt_all init_machine rs)"
      by (simp add: filter_id_conv) (metis not_None_eq)
    then show "length (transitions (snd (attempt_all init_machine rs))) = length rs"
      using n by (simp add: attempt_all_results_length)
  qed
  show ?thesis using n t c a by blast
qed

theorem transitions_audit_witness:
  "fst (attempt_all init_machine interrupted_flow)
     = [None,
        Some \<lparr>transition_id = ''u2'', from_state = IDLE, to_state = QUESTION_RAISED,
              trigger = ''question_asked'', timestamp = 3, metadata = []\<rparr>,
        None,
        Some \<lparr>transition_id = ''u4'', from_state = QUESTION_RAISED, to_state = OWNER_ASSIGNED,
              trigger = ''owner_mentioned'', timestamp = 7, metadata = []\<rparr>]
   \<and> length (transitions (snd (attempt_all init_machine interrupted_flow))) = 2
   \<and> chained IDLE (transitions (snd (attempt_all init_machine interrupted_flow)))
   \<and> None \<notin> set (fst (attempt_all init_machine full_resolution_flow))
   \<and> length (transitions (snd (attempt_all init_machine full_resolution_flow))) = 4
   \<and> chained IDLE (transitions (snd (attempt_all init_machine full_resolution_flow)))"
proof -
  have r: "fst (attempt_all init_machine interrupted_flow)
     = [None,
        Some \<lparr>transition_id = ''u2'', from_state = IDLE, to_state = QUESTION_RAISED,
              trigger = ''question_asked'', timestamp = 3, metadata = []\<rparr>,
        None,
        Some \<lparr>transition_id = ''u4'', from_state = QUESTION_RAISED, to_state = OWNER_ASSIGNED,
              trigger = ''owner_mentioned'', timestamp = 7, metadata = []\<rparr>]"
    by (simp add: interrupted_flow_def init_machine_def transition_to_def can_transition_def
        Let_def split_beta)
  have h: "None \<notin> set (fst (attempt_all init_machine full_resolution_flow))"
    by (simp add: full_resolution_flow_def init_machine_def transition_to_def can_transition_def
        Let_def split_beta)
  have n: "length full_resolution_flow = 4"
    by (simp add: full_resolution_flow_def)
  from transitions_audit [of interrupted_flow]
  have 1: "length (transitions (snd (attempt_all init_machine interrupted_flow))) = 2
           \<and> chained IDLE (transitions (snd (attempt_all init_machine interrupted_flow)))"
    by (simp add: r)
  from transitions_audit [of full_resolution_flow] h
  have "length (transitions (snd (attempt_all init_machine full_resolution_flow)))
          = length full_resolution_flow
        \<and> chained IDLE (transitions (snd (attempt_all init_machine full_resolution_flow)))"
    by blast
  then have 2: "length (transitions (snd (attempt_all init_machine full_resolution_flow))) = 4
           \<and> chained IDLE (transitions (snd (attempt_all init_machine full_resolution_flow)))"
    by (simp only: n)
  show ?thesis using r h 1 2 by blast
qed


section \<open>Signature verification and the ingestion gateway\<close>


lemma py_int_empty: "py_int [] = Inl (ValueError ''invalid literal for int() with base 10'')"
  by (simp add: py_int_def int_strip_def)


lemma py_int_900: "py_int ''900'' = Inr 900"
  by (simp add: py_int_def int_strip_def is_int_space_def digit_value_def)



lemma verify_good:
  "verify_signature const_hmac 1000 example_service ''900'' ''v0=00'' ''{}'' = Inr True"
  by (simp add: verify_signature_def py_int_900 int_to_float_def compare_digest_def is_ascii_def
      const_hmac_def)

lemma verify_bad:
  "verify_signature const_hmac 1000 example_service ''900'' ''v0=ff'' ''{}'' = Inr False"
  by (simp add: verify_signature_def py_int_900 int_to_float_def compare_digest_def is_ascii_def
      const_hmac_def)

lemma handle_raises_unless_verified:
  "verify_signature h now svc ts sg body \<noteq> Inr True \<Longrightarrow>
     \<exists>e. handle_slack_event h now svc event_data ts sg body = (Inl e, svc)"
  by (cases "verify_signature h now svc ts sg body") (auto simp: handle_slack_event_def)









text \<open>
  In \<open>handle_slack_event\<close> (the \<open>POST\<close> path) the signature is verified before the payload
  is looked at: when verification does not return \<open>True\<close> the call raises and leaves the
  service as it was, so whenever a response is returned, a challenge included,
  verification has returned \<open>True\<close>; and a verified handshake payload gets its challenge
  back.
\<close>

lemma handshake_verified_on_post_path:
  "(verify_signature h now svc ts sg body \<noteq> Inr True \<longrightarrow>
      (\<exists>e. handle_slack_event h now svc event_data ts sg body = (Inl e, svc)))
   \<and> (fst (handle_slack_event h now svc event_data ts sg body) = Inr response \<longrightarrow>
        verify_signature h now svc ts sg body = Inr True)
   \<and> (verify_signature h now svc ts sg body = Inr True
        \<and> dict_get d ''type'' PNone = PStr ''url_verification'' \<longrightarrow>
        handle_slack_event h now svc (PDict d) ts sg body
          = (Inr [(''challenge'', dict_get d ''challenge'' PNone)], svc))"
proof -
  have a: "verify_signature h now svc ts sg body \<noteq> Inr True \<longrightarrow>
      (\<exists>e. handle_slack_event h now svc event_data ts sg body = (Inl e, svc))"
    using handle_raises_unless_verified by blast
  have b: "fst (handle_slack_event h now svc event_data ts sg body) = Inr response \<longrightarrow>
        verify_signature h now svc ts sg body = Inr True"
    using handle_raises_unless_verified [of h now svc ts sg body event_data] by fastforce
  have c: "verify_signature h now svc ts sg body = Inr True
        \<and> dict_get d ''type'' PNone = PStr ''url_verification'' \<longrightarrow>
        handle_slack_event h now svc (PDict d) ts sg body
          = (Inr [(''challenge'', dict_get d ''challenge'' PNone)], svc)"
    by (simp add: handle_slack_event_def)
  show ?thesis using a b c by blast
qed

text \<open>
  C5.  The claim requires that no challenge is returned for a handshake whose signature
  verification fails.  The \<open>GET\<close> endpoint breaks it: a request without any signature
  header, for which verification does not succeed, gets its challenge back.  The \<open>POST\<close>
  path, given the same headers and a handshake payload, raises and returns no challenge;
  given a wrong signature it raises too, and given the right one it echoes the challenge.
\<close>

theorem slack_url_verification_echoes_unverified:
  "verify_signature const_hmac 1000 example_service
      (header_get (headers probe_request) ''X-Slack-Request-Timestamp'' [])
      (header_get (headers probe_request) ''X-Slack-Signature'' []) [] \<noteq> Inr True
   \<and> slack_url_verification probe_request ''probe'' = [(''challenge'', PStr ''probe'')]
   \<and> handle_slack_event const_hmac 1000 example_service (PDict handshake_payload)
        (header_get (headers probe_request) ''X-Slack-Request-Timestamp'' [])
        (header_get (headers probe_request) ''X-Slack-Signature'' []) []
       = (Inl (ValueError ''invalid literal for int() with base 10''), example_service)
   \<and> handle_slack_event const_hmac 1000 example_service (PDict handshake_payload)
        ''900'' ''v0=ff'' ''{}''
       = (Inl (ValueError ''Invalid Slack signature''), example_service)
   \<and> handle_slack_event const_hmac 1000 example_service (PDict handshake_payload)
        ''900'' ''v0=00'' ''{}''
       = (Inr [(''challenge'', PStr ''c1'')], example_service)"
proof -
  have v: "verify_signature const_hmac 1000 example_service [] [] []
             = Inl (ValueError ''invalid literal for int() with base 10'')"
    by (simp add: verify_signature_def py_int_empty)
  have a: "verify_signature const_hmac 1000 example_service
      (header_get (headers probe_request) ''X-Slack-Request-Timestamp'' [])
      (header_get (headers probe_request) ''X-Slack-Signature'' []) [] \<noteq> Inr True"
    by (simp add: probe_request_def v)
  have b: "slack_url_verification probe_request ''probe'' = [(''challenge'', PStr ''probe'')]"
    by (simp add: slack_url_verification_def)
  have c: "handle_slack_event const_hmac 1000 example_service (PDict handshake_payload)
        (header_get (headers probe_request) ''X-Slack-Request-Timestamp'' [])
        (header_get (headers probe_request) ''X-Slack-Signature'' []) []
       = (Inl (ValueError ''invalid literal for int() with base 10''), example_service)"
    by (simp add: probe_request_def handle_slack_event_def v)
  have d: "handle_slack_event const_hmac 1000 example_service (PDict handshake_payload)
        ''900'' ''v0=ff'' ''{}''
       = (Inl (ValueError ''Invalid Slack signature''), example_service)"
    by (simp add: handle_slack_event_def verify_bad)
  have e: "handle_slack_event const_hmac 1000 example_service (PDict handshake_payload)
        ''900'' ''v0=00'' ''{}''
       = (Inr [(''challenge'', PStr ''c1'')], example_service)"
    by (simp add: handle_slack_event_def verify_good handshake_payload_def)
  show ?thesis using a b c d e by blast
qed

text \<open>
  C9.  Take an \<open>event_callback\<close> payload whose inner event parses to \<open>None\<close>.  Whatever the
  signature, the call leaves the service as it was: nothing is put on the queue and the
  callback is not called.  Once the signature has been verified (the step before parsing),
  the call returns the acknowledgment \<open>{"ok": True}\<close> and raises nothing.  Every inner event
  whose type is neither \<open>message\<close> nor \<open>app_mention\<close> parses to \<open>None\<close>.
\<close>

theorem dropped_event_acknowledged:
  assumes "dict_get d ''type'' PNone = PStr ''event_callback''"
      and "parse_event (dict_get d ''event'' (PDict [])) = Inr None"
  shows "snd (handle_slack_event h now svc (PDict d) ts sg body) = svc
       \<and> event_queue (snd (handle_slack_event h now svc (PDict d) ts sg body)) = event_queue svc
       \<and> delivered (snd (handle_slack_event h now svc (PDict d) ts sg body)) = delivered svc
       \<and> (verify_signature h now svc ts sg body = Inr True \<longrightarrow>
            fst (handle_slack_event h now svc (PDict d) ts sg body) = Inr [(''ok'', PBool True)])
       \<and> (dict_get e ''type'' PNone \<notin> set [PStr ''message'', PStr ''app_mention''] \<longrightarrow>
            parse_event (PDict e) = Inr None)"
  using assms
  by (cases "verify_signature h now svc ts sg body")
     (auto simp: handle_slack_event_def process_event_callback_def parse_event_def)

theorem dropped_event_acknowledged_witness:
  "dict_get reaction_payload ''type'' PNone = PStr ''event_callback''
   \<and> parse_event (dict_get reaction_payload ''event'' (PDict [])) = Inr None
   \<and> handle_slack_event const_hmac 1000 example_service (PDict reaction_payload)
        ''900'' ''v0=00'' ''{}'' = (Inr [(''ok'', PBool True)], example_service)
   \<and> event_queue (snd (handle_slack_event const_hmac 1000 example_service (PDict reaction_payload)
        ''900'' ''v0=00'' ''{}'')) = []"
proof -
  have ty: "dict_get reaction_payload ''type'' PNone = PStr ''event_callback''"
    by (simp add: reaction_payload_def)
  have ev: "parse_event (dict_get reaction_payload ''event'' (PDict [])) = Inr None"
    by (simp add: reaction_payload_def parse_event_def)
  have q: "event_queue example_service = []"
    by (simp add: example_service_def)
  from dropped_event_acknowledged [OF ty ev, of const_hmac 1000 example_service "''900''"
      "''v0=00''" "''{}''" "[(''type'', PStr ''reaction_added'')]"] verify_good
  have "snd (handle_slack_event const_hmac 1000 example_service (PDict reaction_payload)
               ''900'' ''v0=00'' ''{}'') = example_service
        \<and> fst (handle_slack_event const_hmac 1000 example_service (PDict reaction_payload)
               ''900'' ''v0=00'' ''{}'') = Inr [(''ok'', PBool True)]"
    by simp
  then show ?thesis using ty ev q by (simp add: prod_eq_iff)
qed


section \<open>Decision engine\<close>

lemma py_max_Max: "py_max m xs = Max (set (m # xs))"
proof (induction xs arbitrary: m)
  case Nil
  then show ?case by simp
next
  case (Cons x xs)
  have "py_max m (x # xs) = Max (set ((if x > m then x else m) # xs))"
    using Cons.IH by simp
  also have "\<dots> = Max (insert (max m x) (set xs))"
    by (simp add: max_def)
  also have "\<dots> = Max (set (m # x # xs))"
    by (cases "xs = []") (simp_all add: Max_insert max.assoc)
  finally show ?case .
qed

text \<open>
  C3.  For state \<open>question_raised\<close>, \<open>needsOwner\<close> true, 25 hours in the state and a
  clarification count of 5 (rules 1 and 2 both hold), \<open>evaluate\<close> returns the decision
  \<open>prompt_ownership\<close> with priority \<open>high\<close>, whatever the other inputs.  In general the
  action and priority returned are those of the first rule, in the specification's order,
  whose condition holds, and there is no decision when none holds; the result is one
  optional decision, so never more than one.
\<close>

theorem decision_priority:
  "evaluate now ''question_raised'' (25 * 3600) signal_intent True gap_severities 5 last_activity_at
     = Some \<lparr>action = ''prompt_ownership'', reason = NoOwnerAssignedAfterHours 24,
              priority = ''high'',
              decision_metadata = [(''hours_elapsed'', PFloat (Fin 25))]\<rparr>
   \<and> map_option (\<lambda>d. (action d, priority d))
        (evaluate now state time_in_state intent_name needsOwner gaps clarificationCount last_at)
     = first_match (spec_rules now state time_in_state intent_name needsOwner gaps
                      clarificationCount last_at)"
proof -
  have a: "evaluate now ''question_raised'' (25 * 3600) signal_intent True gap_severities 5
             last_activity_at
     = Some \<lparr>action = ''prompt_ownership'', reason = NoOwnerAssignedAfterHours 24,
              priority = ''high'',
              decision_metadata = [(''hours_elapsed'', PFloat (Fin 25))]\<rparr>"
    by (simp add: evaluate_def THRESHOLDS_def)
  have b: "map_option (\<lambda>d. (action d, priority d))
        (evaluate now state time_in_state intent_name needsOwner gaps clarificationCount last_at)
     = first_match (spec_rules now state time_in_state intent_name needsOwner gaps
                      clarificationCount last_at)"
    by (cases gaps) (simp_all add: evaluate_def spec_rules_def THRESHOLDS_def Let_def py_max_Max)
  show ?thesis using a b by simp
qed


section \<open>Signal extraction\<close>

lemma clamp_unit: "\<exists>c. py_max2 (Fin 0) (py_min2 (Fin 1) c0) = Fin c \<and> 0 \<le> c \<and> c \<le> 1"
  by (cases c0) (auto simp: py_max2_def py_min2_def)

text \<open>
  A signal built by the \<open>try\<close> block has a confidence in the unit interval and an
  uncertainty of one minus that confidence, whatever the prediction held.
\<close>

lemma analyze_try_invariant:
  "analyze_try rt agent message ctx = Inr s \<Longrightarrow> signal_invariant s"
proof -
  assume a: "analyze_try rt agent message ctx = Inr s"
  then obtain c0 where s: "confidence s = py_max2 (Fin 0) (py_min2 (Fin 1) c0)"
      "uncertainty s = float_sub (Fin 1) (py_max2 (Fin 0) (py_min2 (Fin 1) c0))"
    by (auto simp: analyze_try_def Let_def split: sum.splits)
  obtain c where "py_max2 (Fin 0) (py_min2 (Fin 1) c0) = Fin c" "0 \<le> c" "c \<le> 1"
    using clamp_unit by blast
  then show ?thesis using s by (simp add: signal_invariant_def)
qed

text \<open>
  C4.  When the predictor raises, \<open>analyze_message\<close> raises nothing and returns the default
  signal: intent \<open>update\<close>, confidence 0.5, \<open>needs_owner\<close> false.  That signal carries the
  uncertainty 1.0, which is not one minus its confidence: the invariant the claim requires
  of it does not hold.
\<close>

theorem default_signal_breaks_invariant:
  "analyze_message plain_runtime failing_agent ''hello'' None = default_signal
   \<and> intent (analyze_message plain_runtime failing_agent ''hello'' None) = UPDATE
   \<and> needs_owner (analyze_message plain_runtime failing_agent ''hello'' None) = False
   \<and> confidence (analyze_message plain_runtime failing_agent ''hello'' None) = Fin (1 / 2)
   \<and> uncertainty (analyze_message plain_runtime failing_agent ''hello'' None) = Fin 1
   \<and> \<not> signal_invariant (analyze_message plain_runtime failing_agent ''hello'' None)"
  by (simp add: analyze_message_def analyze_try_def failing_agent_def default_signal_def
      signal_invariant_def)


section \<open>Gap detector\<close>

lemma ownership_gaps_shape:
  "ownership_gaps c trs env = [] \<or> (\<exists>g. ownership_gaps c trs env = [g] \<and> gap_type g = OWNERSHIP)"
  by (simp add: ownership_gaps_def Let_def)

lemma context_gaps_shape:
  "context_gaps ms env gs = [] \<or> (\<exists>g. context_gaps ms env gs = [g] \<and> gap_type g = CONTEXT)"
  by (simp add: context_gaps_def Let_def)

lemma ownership_severity_bounds:
  "0 \<le> h \<Longrightarrow> 0 \<le> ownership_severity h \<and> ownership_severity h \<le> 1"
  by (simp add: ownership_severity_def)

lemma ownership_severity_cap: "72 \<le> h \<Longrightarrow> ownership_severity h = 1"
  by (simp add: ownership_severity_def)

lemma is_question_iff: "is_question m \<longleftrightarrow> msg_extracted_intent m = Some QUESTION"
proof (cases "msg_extracted_intent m")
  case None
  then show ?thesis by (simp add: is_question_def)
next
  case (Some i)
  then show ?thesis by (cases i) (simp_all add: is_question_def)
qed

text \<open>
  The nested loops count the index pairs \<open>(i, j)\<close> with \<open>i < j\<close>, \<open>i\<close> among the first \<open>n\<close>
  positions and \<open>j\<close> anywhere after it, whose two messages are questions with the same first
  hundred characters.
\<close>

lemma count_similar_card:
  "count_similar n ms =
     card {(i, j). i < j \<and> i < n \<and> j < length ms
                   \<and> is_question (ms ! i) \<and> is_question (ms ! j)
                   \<and> take 100 (msg_content (ms ! i)) = take 100 (msg_content (ms ! j))}"
proof (induction n ms rule: count_similar.induct)
  case (1 ms)
  then show ?case by simp
next
  case (2 n)
  then show ?case by simp
next
  case (3 n msg1 rest)
  let ?sim = "\<lambda>a b. is_question a \<and> is_question b
                     \<and> take 100 (msg_content a) = take 100 (msg_content b)"
  let ?S = "{(i, j). i < j \<and> i < Suc n \<and> j < length (msg1 # rest)
                   \<and> ?sim ((msg1 # rest) ! i) ((msg1 # rest) ! j)}"
  let ?J = "{j. j < length rest \<and> ?sim msg1 (rest ! j)}"
  let ?T = "{(i, j). i < j \<and> i < n \<and> j < length rest \<and> ?sim (rest ! i) (rest ! j)}"
  let ?A = "(\<lambda>j. (0::nat, Suc j)) ` ?J"
  let ?B = "(\<lambda>(i, j). (Suc i, Suc j)) ` ?T"
  have split: "?S = ?A \<union> ?B"
  proof (rule set_eqI, clarify)
    fix i j
    show "((i, j) \<in> ?S) = ((i, j) \<in> ?A \<union> ?B)"
    proof (cases i)
      case 0
      then show ?thesis by (cases j) (auto simp: image_iff)
    next
      case (Suc i')
      then show ?thesis by (cases j) (auto simp: image_iff)
    qed
  qed
  have finJ: "finite ?J" by simp
  have "?T \<subseteq> {..<length rest} \<times> {..<length rest}" by auto
  then have finT: "finite ?T" by (rule finite_subset) simp
  have disj: "?A \<inter> ?B = {}" by auto
  have cA: "card ?A = card ?J" by (rule card_image) (simp add: inj_on_def)
  have cB: "card ?B = card ?T" by (rule card_image) (auto simp: inj_on_def)
  have cJ: "card ?J = (if is_question msg1
      then length (filter (\<lambda>msg2. is_question msg2
                                 \<and> take 100 (msg_content msg1) = take 100 (msg_content msg2)) rest)
      else 0)"
    by (simp add: length_filter_conv_card)
  have "card ?S = card ?A + card ?B"
    unfolding split using finJ finT disj by (simp add: card_Un_disjoint)
  then show ?case using cA cB cJ "3.IH" by simp
qed

lemma count_similar_numeral_Nil: "count_similar (numeral k) [] = 0"
  by (simp add: numeral_eq_Suc)

lemma count_similar_numeral_Cons:
  "count_similar (numeral k) (msg1 # rest) =
     (if is_question msg1
      then length (filter (\<lambda>msg2. is_question msg2
                                 \<and> take 100 (msg_content msg1) = take 100 (msg_content msg2)) rest)
      else 0)
     + count_similar (pred_numeral k) rest"
  by (simp add: numeral_eq_Suc)

lemma query_messages_late: "query_messages late_questions_db ''c1'' = messages late_questions_db"
  by (simp add: query_messages_def late_questions_db_def update_msg_def question_msg_def)

lemma query_messages_early: "query_messages early_questions_db ''c1'' = messages early_questions_db"
  by (simp add: query_messages_def early_questions_db_def update_msg_def question_msg_def)

lemma update_msg_no_question: "\<not> is_question (update_msg t)"
  by (simp add: is_question_iff update_msg_def)

lemma question_msg_question: "is_question (question_msg t)"
  by (simp add: is_question_iff question_msg_def)

lemma question_msg_content: "msg_content (question_msg t) = ''who owns the login bug?''"
  by (simp add: question_msg_def)

lemma count_similar_late: "count_similar 10 (query_messages late_questions_db ''c1'') = 0"
  unfolding query_messages_late
  by (simp add: late_questions_db_def update_msg_no_question
      count_similar_numeral_Cons count_similar_numeral_Nil)

lemma count_similar_early: "count_similar 10 (query_messages early_questions_db ''c1'') = 3"
  unfolding query_messages_early
  by (simp add: early_questions_db_def update_msg_no_question
      question_msg_question question_msg_content count_similar_numeral_Cons
      count_similar_numeral_Nil)

lemma query_conversation_late:
  "query_conversation late_questions_db ''c1''
     = Some \<lparr>conv_id = ''c1'', conv_current_state = Some CLARIFYING\<rparr>"
  by (simp add: query_conversation_def late_questions_db_def)

lemma query_conversation_early:
  "query_conversation early_questions_db ''c1''
     = Some \<lparr>conv_id = ''c1'', conv_current_state = Some CLARIFYING\<rparr>"
  by (simp add: query_conversation_def early_questions_db_def)

text \<open>
  C6.  For a conversation in state \<open>question_raised\<close> with no transition into
  \<open>owner_assigned\<close>, whose last transition lies \<open>hoursSince\<close> hours back with
  \<open>hoursSince > 24\<close>, the scan returns exactly one ownership gap and its severity is
  \<open>min(1.0, hoursSince / 72)\<close>.  The severity expression lies in [0,1] for every
  \<open>hoursSince \<ge> 0\<close> and is exactly 1 from 72 hours on.
\<close>

theorem ownership_gap_severity:
  assumes "query_conversation db cid = Some conversation"
      and "conv_current_state conversation = Some QUESTION_RAISED"
      and "\<not> list_ex (\<lambda>t. tr_conversation_id t = cid \<and> tr_to_state t = OWNER_ASSIGNED)
               (state_transitions db)"
      and "query_transitions db cid \<noteq> []"
      and "hoursSince = (utcnow env - tr_timestamp (last (query_transitions db cid))) / 3600"
      and "hoursSince > 24"
  shows "filter (\<lambda>g. gap_type g = OWNERSHIP) (fst (detect_gaps db cid env))
           = [\<lparr>gap_id = uuid_first env, gap_type = OWNERSHIP,
               severity = min 1 (hoursSince / 72),
               description = NoOwnerAssignedWithin24Hours, detected_at = utcnow env\<rparr>]
       \<and> (\<forall>h. 0 \<le> h \<longrightarrow> 0 \<le> ownership_severity h \<and> ownership_severity h \<le> 1)
       \<and> (\<forall>h. 72 \<le> h \<longrightarrow> ownership_severity h = 1)"
proof -
  let ?trs = "query_transitions db cid"
  have no: "\<not> list_ex (\<lambda>t. tr_to_state t = OWNER_ASSIGNED) ?trs"
    using assms(3) by (auto simp: query_transitions_def list_ex_iff)
  have o: "ownership_gaps conversation ?trs env
             = [\<lparr>gap_id = uuid_first env, gap_type = OWNERSHIP,
                 severity = min 1 (hoursSince / 72),
                 description = NoOwnerAssignedWithin24Hours, detected_at = utcnow env\<rparr>]"
    using assms(2,4,6) no unfolding assms(5)
    by (simp add: ownership_gaps_def ownership_severity_def Let_def)
  have g: "fst (detect_gaps db cid env)
             = ownership_gaps conversation ?trs env
               @ context_gaps (query_messages db cid) env (ownership_gaps conversation ?trs env)"
    using assms(1) by (simp add: detect_gaps_def Let_def)
  have "filter (\<lambda>g. gap_type g = OWNERSHIP) (fst (detect_gaps db cid env))
          = ownership_gaps conversation ?trs env"
    unfolding g
    using context_gaps_shape [of "query_messages db cid" env "ownership_gaps conversation ?trs env"]
    by (auto simp: o)
  then show ?thesis
    using o ownership_severity_bounds ownership_severity_cap by simp
qed

theorem ownership_gap_severity_witness:
  "query_conversation stalled_db ''c1''
     = Some \<lparr>conv_id = ''c1'', conv_current_state = Some QUESTION_RAISED\<rparr>
   \<and> query_transitions stalled_db ''c1'' \<noteq> []
   \<and> (48::real) = (utcnow after_48_hours
                     - tr_timestamp (last (query_transitions stalled_db ''c1''))) / 3600
   \<and> filter (\<lambda>g. gap_type g = OWNERSHIP) (fst (detect_gaps stalled_db ''c1'' after_48_hours))
       = [\<lparr>gap_id = ''g1'', gap_type = OWNERSHIP, severity = 2 / 3,
           description = NoOwnerAssignedWithin24Hours, detected_at = 172800\<rparr>]
   \<and> ownership_severity 10 \<le> 1 \<and> 0 \<le> ownership_severity 10
   \<and> ownership_severity 72 = 1 \<and> ownership_severity 100 = 1"
proof -
  let ?c = "\<lparr>conv_id = ''c1'', conv_current_state = Some QUESTION_RAISED\<rparr>"
  have h1: "query_conversation stalled_db ''c1'' = Some ?c"
    by (simp add: query_conversation_def stalled_db_def)
  have h2: "conv_current_state ?c = Some QUESTION_RAISED" by simp
  have h3: "\<not> list_ex (\<lambda>t. tr_conversation_id t = ''c1'' \<and> tr_to_state t = OWNER_ASSIGNED)
               (state_transitions stalled_db)"
    by (simp add: stalled_db_def)
  have h4: "query_transitions stalled_db ''c1'' \<noteq> []"
    by (simp add: query_transitions_def stalled_db_def)
  have h5: "(48::real) = (utcnow after_48_hours
                     - tr_timestamp (last (query_transitions stalled_db ''c1''))) / 3600"
    by (simp add: query_transitions_def stalled_db_def after_48_hours_def)
  have h6: "(48::real) > 24" by simp
  from ownership_gap_severity [OF h1 h2 h3 h4 h5 h6]
  show ?thesis using h1 h4 h5 by (simp add: after_48_hours_def)
qed

text \<open>
  C7, as stated, fails.  With ten updates followed by three identical questions, the most
  recent ten messages hold three repeated pairs, yet the scan returns no context gap; with
  the three questions first and ten updates after them, the most recent ten messages hold
  no repeated pair, yet the scan returns a context gap.
\<close>

theorem context_gap_not_over_recent_window:
  "spec_repeated_pairs (spec_window (query_messages late_questions_db ''c1'')) = 3
   \<and> filter (\<lambda>g. gap_type g = CONTEXT) (fst (detect_gaps late_questions_db ''c1'' after_48_hours))
       = []
   \<and> spec_repeated_pairs (spec_window (query_messages early_questions_db ''c1'')) = 0
   \<and> filter (\<lambda>g. gap_type g = CONTEXT) (fst (detect_gaps early_questions_db ''c1'' after_48_hours))
       \<noteq> []"
proof -
  have a: "spec_repeated_pairs (spec_window (query_messages late_questions_db ''c1'')) = 3"
    unfolding query_messages_late
    by (simp add: late_questions_db_def spec_window_def
        update_msg_no_question question_msg_question question_msg_content)
  have b: "filter (\<lambda>g. gap_type g = CONTEXT)
             (fst (detect_gaps late_questions_db ''c1'' after_48_hours)) = []"
    by (simp add: detect_gaps_def query_conversation_late Let_def ownership_gaps_def
        context_gaps_def count_similar_late)
  have c: "spec_repeated_pairs (spec_window (query_messages early_questions_db ''c1'')) = 0"
    unfolding query_messages_early
    by (simp add: early_questions_db_def spec_window_def
        update_msg_no_question question_msg_question question_msg_content)
  have d: "filter (\<lambda>g. gap_type g = CONTEXT)
             (fst (detect_gaps early_questions_db ''c1'' after_48_hours)) \<noteq> []"
    by (simp add: detect_gaps_def query_conversation_early Let_def ownership_gaps_def
        context_gaps_def count_similar_early)
  show ?thesis using a b c d by simp
qed

text \<open>
  C7, amended.  Let \<open>msgs\<close> be the conversation's messages in time-stamp order.  The
  similarity pass counts the pairs \<open>(i, j)\<close>, \<open>i < j\<close>, where message \<open>i\<close> is one of the first
  ten messages and message \<open>j\<close> is any later message of the conversation, both have the
  intent \<open>question\<close>, and their first hundred characters are equal.  For an existing
  conversation the scan returns a context gap exactly when that count is at least 2; the
  gap has severity 0.6 and its description carries the count plus one.
\<close>

theorem context_gap_rule:
  assumes "query_conversation db cid = Some conversation"
  shows "(count_similar 10 (query_messages db cid) \<ge> 2 \<longrightarrow>
            (\<exists>g. filter (\<lambda>g. gap_type g = CONTEXT) (fst (detect_gaps db cid env)) = [g]
                 \<and> severity g = 6 / 10
                 \<and> description g
                     = SimilarQuestionsAskedTimes (count_similar 10 (query_messages db cid) + 1)))
       \<and> (count_similar 10 (query_messages db cid) < 2 \<longrightarrow>
            filter (\<lambda>g. gap_type g = CONTEXT) (fst (detect_gaps db cid env)) = [])
       \<and> count_similar 10 (query_messages db cid)
           = card {(i, j). i < j \<and> i < 10 \<and> j < length (query_messages db cid)
                     \<and> msg_extracted_intent (query_messages db cid ! i) = Some QUESTION
                     \<and> msg_extracted_intent (query_messages db cid ! j) = Some QUESTION
                     \<and> take 100 (msg_content (query_messages db cid ! i))
                         = take 100 (msg_content (query_messages db cid ! j))}"
proof -
  let ?o = "ownership_gaps conversation (query_transitions db cid) env"
  have g: "fst (detect_gaps db cid env) = ?o @ context_gaps (query_messages db cid) env ?o"
    using assms by (simp add: detect_gaps_def Let_def)
  have f: "filter (\<lambda>g. gap_type g = CONTEXT) ?o = []"
    using ownership_gaps_shape [of conversation "query_transitions db cid" env] by auto
  have rule: "(count_similar 10 (query_messages db cid) \<ge> 2 \<longrightarrow>
            (\<exists>g. filter (\<lambda>g. gap_type g = CONTEXT) (fst (detect_gaps db cid env)) = [g]
                 \<and> severity g = 6 / 10
                 \<and> description g
                     = SimilarQuestionsAskedTimes (count_similar 10 (query_messages db cid) + 1)))
       \<and> (count_similar 10 (query_messages db cid) < 2 \<longrightarrow>
            filter (\<lambda>g. gap_type g = CONTEXT) (fst (detect_gaps db cid env)) = [])"
    unfolding g by (auto simp: f context_gaps_def Let_def)
  have pairs: "count_similar 10 (query_messages db cid)
           = card {(i, j). i < j \<and> i < 10 \<and> j < length (query_messages db cid)
                     \<and> msg_extracted_intent (query_messages db cid ! i) = Some QUESTION
                     \<and> msg_extracted_intent (query_messages db cid ! j) = Some QUESTION
                     \<and> take 100 (msg_content (query_messages db cid ! i))
                         = take 100 (msg_content (query_messages db cid ! j))}"
    by (simp add: count_similar_card is_question_iff)
  show ?thesis using rule pairs by blast
qed

theorem context_gap_rule_witness:
  "count_similar 10 (query_messages early_questions_db ''c1'') = 3
   \<and> (\<exists>g. filter (\<lambda>g. gap_type g = CONTEXT)
              (fst (detect_gaps early_questions_db ''c1'' after_48_hours)) = [g]
          \<and> severity g = 6 / 10 \<and> description g = SimilarQuestionsAskedTimes 4)
   \<and> count_similar 10 (query_messages late_questions_db ''c1'') = 0
   \<and> filter (\<lambda>g. gap_type g = CONTEXT)
        (fst (detect_gaps late_questions_db ''c1'' after_48_hours)) = []"
  using context_gap_rule [OF query_conversation_early, of after_48_hours]
        context_gap_rule [OF query_conversation_late, of after_48_hours]
        count_similar_early count_similar_late
  by simp

text \<open>
  C10.  One scan returns at most two gaps: at most one of type \<open>ownership\<close>, at most one
  of type \<open>context\<close>, and none of type \<open>response\<close> or \<open>resolution\<close>.
\<close>

theorem detect_gaps_at_most_two:
  "length (fst (detect_gaps db cid env)) \<le> 2
   \<and> length (filter (\<lambda>g. gap_type g = OWNERSHIP) (fst (detect_gaps db cid env))) \<le> 1
   \<and> length (filter (\<lambda>g. gap_type g = CONTEXT) (fst (detect_gaps db cid env))) \<le> 1
   \<and> filter (\<lambda>g. gap_type g = RESPONSE) (fst (detect_gaps db cid env)) = []
   \<and> filter (\<lambda>g. gap_type g = RESOLUTION_GAP) (fst (detect_gaps db cid env)) = []"
proof (cases "query_conversation db cid")
  case None
  then show ?thesis by (simp add: detect_gaps_def)
next
  case (Some c)
  let ?o = "ownership_gaps c (query_transitions db cid) env"
  let ?c = "context_gaps (query_messages db cid) env ?o"
  have g: "fst (detect_gaps db cid env) = ?o @ ?c"
    using Some by (simp add: detect_gaps_def Let_def)
  from ownership_gaps_shape [of c "query_transitions db cid" env]
       context_gaps_shape [of "query_messages db cid" env ?o]
  show ?thesis unfolding g by auto
qed

end
